theory Spec2Isabelle
  imports Main
begin

section \<open>JavaScript strings\<close>

text \<open>
  A JavaScript string is a sequence of UTF-16 code units. The model covers the strings
  whose code units are below 256 (the Latin-1 range), one \<^typ>\<open>char\<close> per code unit.
  On that range \<open>String.prototype.toLowerCase\<close> maps \<open>A\<close>..\<open>Z\<close> and the
  accented capitals 192..222 (without the multiplication sign 215) to the code unit 32
  above, and \<open>String.prototype.trim\<close> removes tab, line feed, vertical tab, form feed,
  carriage return, space and the no-break space 160 from both ends.
\<close>

definition isWhiteSpace :: "char \<Rightarrow> bool" where
  "isWhiteSpace c = ((of_char c :: nat) \<in> {9, 10, 11, 12, 13, 32, 160})"

definition isUpperCase :: "char \<Rightarrow> bool" where
  "isUpperCase c = (let n = (of_char c :: nat) in
     (65 \<le> n \<and> n \<le> 90) \<or> (192 \<le> n \<and> n \<le> 222 \<and> n \<noteq> 215))"

definition toLowerChar :: "char \<Rightarrow> char" where
  "toLowerChar c = (if isUpperCase c then char_of ((of_char c :: nat) + 32) else c)"

definition toLowerCase :: "string \<Rightarrow> string" where
  "toLowerCase s = map toLowerChar s"

definition trim :: "string \<Rightarrow> string" where
  "trim s = rev (dropWhile isWhiteSpace (rev (dropWhile isWhiteSpace s)))"

text \<open>\<open>if (s)\<close> on a value of type \<open>string | null | undefined\<close>: the empty string is falsy.\<close>

definition truthy :: "string option \<Rightarrow> bool" where
  "truthy v = (case v of None \<Rightarrow> False | Some s \<Rightarrow> s \<noteq> [])"

section \<open>The database\<close>

datatype AuditEvent =
    login_allow | login_deny | api_allow | api_deny
  | admin_add_user | admin_remove_user | admin_toggle_user
  | session_created | session_expired | session_invalidated

text \<open>The values that the guards and routes put into an audit entry's \<open>details\<close>.\<close>

datatype detail = Str string | Bool bool | Undefined

text \<open>
  \<open>AuditLogFields\<close> is \<open>Omit<AuditLogEntry, 'id' | 'ts'>\<close>, what \<open>logEvent\<close> is given;
  a row of the table adds the two columns that the database fills in.
\<close>

record AuditLogFields =
  email :: "string option"
  event :: AuditEvent
  path :: "string option"
  ip :: "string option"
  user_agent :: "string option"
  details :: "(string \<times> detail) list option"

record AuditLogEntry = AuditLogFields +
  id :: nat
  ts :: int

record AllowedUser =
  email :: string
  display_name :: "string option"
  role :: string
  invited_by :: "string option"
  created_at :: int
  updated_at :: int
  active :: bool

text \<open>
  The SQL statements the code sends. \<open>failing\<close> below says, for each of them, whether the
  driver throws (connection lost, statement rejected) and with which message.
\<close>

datatype statement =
    SELECT_allowed | UPSERT_allowed | DELETE_allowed | TOGGLE_allowed | SELECT_all_allowed
  | INSERT_audit | COUNT_audit | SELECT_audit

text \<open>
  The two tables of \<open>migrations/001_initial_schema.sql\<close>. \<open>auth_allowed_emails\<close> has the
  primary key \<open>email CITEXT\<close>: at most one row per case-folded email, so the table is a map
  from the case-folded email to the row. \<open>auth_audit_log\<close> is kept in insertion order, with
  ids drawn from the \<open>BIGSERIAL\<close> sequence.
\<close>

record database =
  auth_allowed_emails :: "string \<rightharpoonup> AllowedUser"
  auth_audit_log :: "AuditLogEntry list"
  audit_id_seq :: nat
  failing :: "statement \<Rightarrow> string option"

definition citext :: "string \<Rightarrow> string" where
  "citext s = toLowerCase s"

definition role_check :: "string \<Rightarrow> bool" where
  "role_check r = (r \<in> set [''admin'', ''viewer'', ''qa''])"

definition role_check_violation :: string where
  "role_check_violation = ''violates check constraint auth_allowed_emails_role_check''"

text \<open>
  Modelled from the spec: the \<open>query\<close> helper of \<open>lib/database/connection\<close> is not among
  the sources. Each \<open>query_\<close> function below is the statement whose SQL text the calling
  method passes to \<open>query\<close>, read against the schema of the migration; \<open>Inl\<close> is the
  message of the error that \<open>query\<close> throws, \<open>Inr\<close> the returned rows.

  \<open>SELECT ... FROM auth_allowed_emails WHERE email = $1\<close>
\<close>

definition query_select_allowed :: "database \<Rightarrow> string \<Rightarrow> string + AllowedUser list" where
  "query_select_allowed db e =
     (case failing db SELECT_allowed of
        Some msg \<Rightarrow> Inl msg
      | None \<Rightarrow> Inr (case auth_allowed_emails db (citext e) of None \<Rightarrow> [] | Some u \<Rightarrow> [u]))"

text \<open>
  \<open>INSERT INTO auth_allowed_emails (email, display_name, role, invited_by) VALUES ($1, $2, $3, $4)
  ON CONFLICT (email) DO UPDATE SET display_name = $2, role = $3, invited_by = $4, updated_at = now()\<close>:
  a new row takes the column defaults (\<open>active\<close> true, both timestamps now).
\<close>

definition query_upsert_allowed ::
  "database \<Rightarrow> int \<Rightarrow> string \<Rightarrow> string \<Rightarrow> string \<Rightarrow> string \<Rightarrow> string + database" where
  "query_upsert_allowed db now e dn r invitedBy =
     (case failing db UPSERT_allowed of
        Some msg \<Rightarrow> Inl msg
      | None \<Rightarrow>
          if \<not> role_check r then Inl role_check_violation
          else Inr (db\<lparr>auth_allowed_emails := (auth_allowed_emails db)(citext e \<mapsto>
            (case auth_allowed_emails db (citext e) of
               None \<Rightarrow> \<lparr>email = e, display_name = Some dn, role = r, invited_by = Some invitedBy,
                         created_at = now, updated_at = now, active = True\<rparr>
             | Some u \<Rightarrow> u\<lparr>display_name := Some dn, role := r, invited_by := Some invitedBy,
                           updated_at := now\<rparr>))\<rparr>))"

text \<open>\<open>DELETE FROM auth_allowed_emails WHERE email = $1\<close>\<close>

definition query_delete_allowed :: "database \<Rightarrow> string \<Rightarrow> string + database" where
  "query_delete_allowed db e =
     (case failing db DELETE_allowed of
        Some msg \<Rightarrow> Inl msg
      | None \<Rightarrow> Inr (db\<lparr>auth_allowed_emails := (auth_allowed_emails db)(citext e := None)\<rparr>))"

text \<open>
  \<open>UPDATE auth_allowed_emails SET active = NOT active, updated_at = now() WHERE email = $1
  RETURNING active\<close>: the returned rows carry the new value of \<open>active\<close>.
\<close>

definition query_toggle_allowed :: "database \<Rightarrow> int \<Rightarrow> string \<Rightarrow> string + bool list \<times> database" where
  "query_toggle_allowed db now e =
     (case failing db TOGGLE_allowed of
        Some msg \<Rightarrow> Inl msg
      | None \<Rightarrow>
          (case auth_allowed_emails db (citext e) of
             None \<Rightarrow> Inr ([], db)
           | Some u \<Rightarrow> Inr ([\<not> active u],
               db\<lparr>auth_allowed_emails := (auth_allowed_emails db)(citext e \<mapsto>
                 u\<lparr>active := \<not> active u, updated_at := now\<rparr>)\<rparr>)))"

section \<open>AllowListService\<close>

record CacheEntry =
  user :: AllowedUser
  timestamp :: int

record AllowListResult =
  allowed :: bool
  user :: "AllowedUser option"
  error :: "string option"

record OpResult =
  success :: bool
  error :: "string option"

record ToggleResult = OpResult +
  newStatus :: "bool option"

record AllowListService =
  cache :: "string \<rightharpoonup> CacheEntry"

definition cacheTimeout :: int where
  "cacheTimeout = 5 * 60 * 1000"

definition normalizeEmail :: "string \<Rightarrow> string" where
  "normalizeEmail e = trim (toLowerCase e)"

text \<open>
  \<open>const cached = this.cache.get(normalizedEmail);
  if (cached && Date.now() - cached.timestamp < this.cacheTimeout)\<close>:
  the cached row, when the entry is there and younger than the timeout.
\<close>

definition cache_hit :: "AllowListService \<Rightarrow> int \<Rightarrow> string \<Rightarrow> AllowedUser option" where
  "cache_hit svc now k =
     (case cache svc k of
        None \<Rightarrow> None
      | Some cached \<Rightarrow>
          if now - timestamp cached < cacheTimeout then Some (CacheEntry.user cached) else None)"

text \<open>
  Every method runs in \<open>try { ... } catch (error)\<close> and turns what \<open>query\<close> throws into a
  result with \<open>error\<close> set. \<open>now\<close> is the clock (\<open>Date.now()\<close>, milliseconds) at the call.
\<close>

definition isEmailAllowed ::
  "AllowListService \<Rightarrow> database \<Rightarrow> int \<Rightarrow> string \<Rightarrow> AllowListResult \<times> AllowListService" where
  "isEmailAllowed svc db now e =
     (let normalizedEmail = normalizeEmail e in
      case cache_hit svc now normalizedEmail of
        Some u \<Rightarrow> (\<lparr>allowed = active u, user = Some u, error = None\<rparr>, svc)
      | None \<Rightarrow>
          (case query_select_allowed db normalizedEmail of
             Inl msg \<Rightarrow> (\<lparr>allowed = False, user = None, error = Some msg\<rparr>, svc)
           | Inr [] \<Rightarrow>
               (\<lparr>allowed = False, user = None, error = Some ''Email not found in allow list''\<rparr>,
                svc)
           | Inr (u # _) \<Rightarrow>
               (\<lparr>allowed = active u, user = Some u, error = None\<rparr>,
                svc\<lparr>cache := (cache svc)(normalizedEmail \<mapsto>
                  \<lparr>CacheEntry.user = u, timestamp = now\<rparr>)\<rparr>)))"

definition addUser ::
  "AllowListService \<Rightarrow> database \<Rightarrow> int \<Rightarrow> string \<Rightarrow> string \<Rightarrow> string \<Rightarrow> string
     \<Rightarrow> OpResult \<times> AllowListService \<times> database" where
  "addUser svc db now e displayName r invitedBy =
     (let normalizedEmail = normalizeEmail e in
      case query_upsert_allowed db now normalizedEmail displayName r invitedBy of
        Inl msg \<Rightarrow> (\<lparr>success = False, error = Some msg\<rparr>, svc, db)
      | Inr db' \<Rightarrow>
          (\<lparr>success = True, error = None\<rparr>,
           svc\<lparr>cache := (cache svc)(normalizedEmail := None)\<rparr>, db'))"

definition removeUser ::
  "AllowListService \<Rightarrow> database \<Rightarrow> string \<Rightarrow> OpResult \<times> AllowListService \<times> database" where
  "removeUser svc db e =
     (let normalizedEmail = normalizeEmail e in
      case query_delete_allowed db normalizedEmail of
        Inl msg \<Rightarrow> (\<lparr>success = False, error = Some msg\<rparr>, svc, db)
      | Inr db' \<Rightarrow>
          (\<lparr>success = True, error = None\<rparr>,
           svc\<lparr>cache := (cache svc)(normalizedEmail := None)\<rparr>, db'))"

definition toggleUserStatus ::
  "AllowListService \<Rightarrow> database \<Rightarrow> int \<Rightarrow> string
     \<Rightarrow> ToggleResult \<times> AllowListService \<times> database" where
  "toggleUserStatus svc db now e =
     (let normalizedEmail = normalizeEmail e in
      case query_toggle_allowed db now normalizedEmail of
        Inl msg \<Rightarrow> (\<lparr>success = False, error = Some msg, newStatus = None\<rparr>, svc, db)
      | Inr ([], db') \<Rightarrow>
          (\<lparr>success = False, error = Some ''User not found'', newStatus = None\<rparr>, svc, db')
      | Inr (a # _, db') \<Rightarrow>
          (\<lparr>success = True, error = None, newStatus = Some a\<rparr>,
           svc\<lparr>cache := (cache svc)(normalizedEmail := None)\<rparr>, db'))"

section \<open>AuditLogger\<close>

definition event_check :: "AuditEvent \<Rightarrow> bool" where
  "event_check ev = (ev \<in> set [login_allow, login_deny, api_allow, api_deny,
     admin_add_user, admin_remove_user, admin_toggle_user])"

definition event_check_violation :: string where
  "event_check_violation = ''violates check constraint auth_audit_log_event_check''"

text \<open>\<open>JSON.stringify\<close> of a \<open>details\<close> object leaves out the properties that are undefined.\<close>

definition JSON_stringify :: "(string \<times> detail) list \<Rightarrow> (string \<times> detail) list" where
  "JSON_stringify d = filter (\<lambda>kv. snd kv \<noteq> Undefined) d"

text \<open>
  Modelled from the spec: the statements of \<open>AuditLogger\<close> that go through the missing
  \<open>query\<close> helper.

  \<open>INSERT INTO auth_audit_log (email, event, path, ip, user_agent, details) VALUES (...)\<close>:
  \<open>id\<close> comes from the sequence and \<open>ts\<close> defaults to now.
\<close>

definition query_insert_audit :: "database \<Rightarrow> int \<Rightarrow> AuditLogFields \<Rightarrow> string + database" where
  "query_insert_audit db now entry =
     (case failing db INSERT_audit of
        Some msg \<Rightarrow> Inl msg
      | None \<Rightarrow>
          if \<not> event_check (AuditLogFields.event entry) then Inl event_check_violation
          else Inr (db\<lparr>auth_audit_log := auth_audit_log db @
                      [\<lparr>AuditLogFields.email = AuditLogFields.email entry, event = AuditLogFields.event entry,
                        path = AuditLogFields.path entry, ip = AuditLogFields.ip entry,
                        user_agent = AuditLogFields.user_agent entry,
                        details = AuditLogFields.details entry,
                        id = audit_id_seq db, ts = now\<rparr>],
                    audit_id_seq := Suc (audit_id_seq db)\<rparr>))"

definition logEvent :: "database \<Rightarrow> int \<Rightarrow> AuditLogFields \<Rightarrow> OpResult \<times> database" where
  "logEvent db now entry =
     (case query_insert_audit db now
             (entry\<lparr>details := map_option JSON_stringify (AuditLogFields.details entry)\<rparr>) of
        Inl msg \<Rightarrow> (\<lparr>success = False, error = Some msg\<rparr>, db)
      | Inr db' \<Rightarrow> (\<lparr>success = True, error = None\<rparr>, db'))"

definition logAuthEvent ::
  "database \<Rightarrow> int \<Rightarrow> string option \<Rightarrow> AuditEvent \<Rightarrow> string option \<Rightarrow> string option
     \<Rightarrow> string option \<Rightarrow> (string \<times> detail) list option \<Rightarrow> database" where
  "logAuthEvent db now e ev p i userAgent d =
     snd (logEvent db now \<lparr>AuditLogFields.email = e, event = ev, path = p, ip = i, user_agent = userAgent,
                            details = d\<rparr>)"

definition logAdminEvent ::
  "database \<Rightarrow> int \<Rightarrow> string option \<Rightarrow> AuditEvent \<Rightarrow> string option \<Rightarrow> string option
     \<Rightarrow> string option \<Rightarrow> (string \<times> detail) list option \<Rightarrow> database" where
  "logAdminEvent db now e ev p i userAgent d =
     snd (logEvent db now \<lparr>AuditLogFields.email = e, event = ev, path = p, ip = i, user_agent = userAgent,
                            details = d\<rparr>)"

text \<open>
  \<open>limit\<close> and \<open>offset\<close> are JavaScript numbers; \<open>None\<close> stands for \<open>undefined\<close> and for
  \<open>NaN\<close> (what \<open>parseInt\<close> gives the audit route for a parameter that is no number).
\<close>

record AuditLogQuery =
  email :: "string option"
  event :: "AuditEvent option"
  startDate :: "int option"
  endDate :: "int option"
  limit :: "int option"
  offset :: "int option"

record AuditLogsResult =
  logs :: "AuditLogEntry list"
  total :: nat
  error :: "string option"

text \<open>
  The list \<open>conditions\<close> that \<open>getAuditLogs\<close> builds, each condition as the predicate on
  a row that its SQL text denotes. The \<open>email\<close> column is \<open>CITEXT\<close>; a row whose email is
  \<open>NULL\<close> satisfies no \<open>email = $n\<close>.
\<close>

definition conditions :: "AuditLogQuery \<Rightarrow> (AuditLogEntry \<Rightarrow> bool) list" where
  "conditions queryParams =
     (case AuditLogQuery.email queryParams of
        None \<Rightarrow> []
      | Some e \<Rightarrow>
          if e = [] then []
          else [\<lambda>row. case AuditLogFields.email row of
                         None \<Rightarrow> False
                       | Some re \<Rightarrow> citext re = citext e])
     @ (case AuditLogQuery.event queryParams of
          None \<Rightarrow> []
        | Some ev \<Rightarrow> [\<lambda>row. AuditLogFields.event row = ev])
     @ (case startDate queryParams of None \<Rightarrow> [] | Some d \<Rightarrow> [\<lambda>row. ts row \<ge> d])
     @ (case endDate queryParams of None \<Rightarrow> [] | Some d \<Rightarrow> [\<lambda>row. ts row \<le> d])"

text \<open>\<open>WHERE ${conditions.join(' AND ')}\<close>, and no \<open>WHERE\<close> for the empty list.\<close>

definition whereClause :: "AuditLogQuery \<Rightarrow> AuditLogEntry \<Rightarrow> bool" where
  "whereClause queryParams row = list_all (\<lambda>condition. condition row) (conditions queryParams)"

text \<open>
  Modelled from the spec: \<open>SELECT COUNT(*) as total FROM auth_audit_log ${whereClause}\<close> and
  \<open>SELECT ... FROM auth_audit_log ${whereClause} ORDER BY ts DESC LIMIT $n OFFSET $m\<close>.
  Rows whose \<open>ts\<close> are equal come in insertion order, the same in every query on one
  state of the table; PostgreSQL rejects a negative \<open>LIMIT\<close> or \<open>OFFSET\<close>.
\<close>

definition query_count_audit :: "database \<Rightarrow> AuditLogQuery \<Rightarrow> string + nat" where
  "query_count_audit db queryParams =
     (case failing db COUNT_audit of
        Some msg \<Rightarrow> Inl msg
      | None \<Rightarrow> Inr (length (filter (whereClause queryParams) (auth_audit_log db))))"

definition order_by_ts_desc :: "AuditLogEntry list \<Rightarrow> AuditLogEntry list" where
  "order_by_ts_desc rows = sort_key (\<lambda>row. - ts row) rows"

definition query_select_audit ::
  "database \<Rightarrow> AuditLogQuery \<Rightarrow> int \<Rightarrow> int \<Rightarrow> string + AuditLogEntry list" where
  "query_select_audit db queryParams lim off =
     (case failing db SELECT_audit of
        Some msg \<Rightarrow> Inl msg
      | None \<Rightarrow>
          if lim < 0 then Inl ''LIMIT must not be negative''
          else if off < 0 then Inl ''OFFSET must not be negative''
          else Inr (take (nat lim) (drop (nat off)
                 (order_by_ts_desc (filter (whereClause queryParams) (auth_audit_log db))))))"

text \<open>\<open>queryParams.limit || 100\<close> and \<open>queryParams.offset || 0\<close>: zero is falsy.\<close>

definition getAuditLogs :: "database \<Rightarrow> AuditLogQuery \<Rightarrow> AuditLogsResult" where
  "getAuditLogs db queryParams =
     (case query_count_audit db queryParams of
        Inl msg \<Rightarrow> \<lparr>logs = [], total = 0, error = Some msg\<rparr>
      | Inr n \<Rightarrow>
          (let lim = (case limit queryParams of None \<Rightarrow> 100 | Some l \<Rightarrow> if l = 0 then 100 else l);
               off = (case offset queryParams of None \<Rightarrow> 0 | Some k \<Rightarrow> k)
           in case query_select_audit db queryParams lim off of
                Inl msg \<Rightarrow> \<lparr>logs = [], total = 0, error = Some msg\<rparr>
              | Inr rows \<Rightarrow> \<lparr>logs = rows, total = n, error = None\<rparr>))"

section \<open>InputSanitizer\<close>

record ValidationResult =
  isValid :: bool
  sanitizedValue :: string
  errors :: "string list"
  warnings :: "string list"

definition sanitizeRole :: "string \<Rightarrow> ValidationResult" where
  "sanitizeRole input =
     (let sanitizedValue = toLowerCase (trim input);
          allowedRoles = [''admin'', ''viewer'', ''editor''];
          errors = (if sanitizedValue \<notin> set allowedRoles
                    then [''Role must be one of: admin, viewer, editor''] else [])
      in \<lparr>isValid = (length errors = 0), sanitizedValue = sanitizedValue, errors = errors,
           warnings = []\<rparr>)"

section \<open>The identity provider\<close>

text \<open>
  What Clerk answers during one request: \<open>auth()\<close> either throws (\<open>auth_error\<close>) or
  yields \<open>userId\<close> and \<open>sessionClaims\<close>; \<open>currentUser()\<close> either throws or yields
  the user, if any.
\<close>

record SessionClaims =
  email :: "string option"
  email_address :: "string option"
  email_addresses :: "string list option"

record ClerkUser =
  primaryEmailAddress :: "string option"
  emailAddresses :: "string list"

record Clerk =
  auth_error :: "string option"
  userId :: "string option"
  sessionClaims :: "SessionClaims option"
  currentUser :: "string + ClerkUser option"

record SignedInIdentity =
  userId :: "string option"
  email :: "string option"

text \<open>\<open>a || b\<close> on values of type \<open>string | undefined\<close>.\<close>

definition or_else :: "string option \<Rightarrow> string option \<Rightarrow> string option" where
  "or_else a b = (if truthy a then a else b)"

definition first_of :: "string list \<Rightarrow> string option" where
  "first_of xs = (case xs of [] \<Rightarrow> None | x # _ \<Rightarrow> Some x)"

definition getSignedInEmail :: "Clerk \<Rightarrow> string + SignedInIdentity" where
  "getSignedInEmail clerk =
     (case auth_error clerk of
        Some msg \<Rightarrow> Inl msg
      | None \<Rightarrow>
          (let claimed =
                 (case sessionClaims clerk of
                    None \<Rightarrow> None
                  | Some c \<Rightarrow>
                      or_else (SessionClaims.email c)
                        (or_else (email_address c)
                           (case email_addresses c of None \<Rightarrow> None | Some xs \<Rightarrow> first_of xs)));
               e = (if \<not> truthy claimed \<and> truthy (Clerk.userId clerk)
                    then (case currentUser clerk of
                            Inl _ \<Rightarrow> claimed
                          | Inr None \<Rightarrow> None
                          | Inr (Some u) \<Rightarrow>
                              or_else (primaryEmailAddress u) (first_of (emailAddresses u)))
                    else claimed)
           in Inr \<lparr>SignedInIdentity.userId = Clerk.userId clerk, email = e\<rparr>))"

section \<open>Requests and responses\<close>

text \<open>
  \<open>json\<close> is what \<open>request.json()\<close> resolves to for the bodies the admin form sends
  (\<open>None\<close>: the body is no JSON and \<open>request.json()\<close> throws).
\<close>

record UserBody =
  email :: "string option"
  display_name :: "string option"
  role :: "string option"

record NextRequest =
  pathname :: string
  headers :: "string \<rightharpoonup> string"
  json :: "UserBody option"

datatype ResponseBody =
    ErrorBody "string option"
  | SuccessBody string "bool option"
  | UsersBody "AllowedUser list"

record NextResponse =
  status :: nat
  body :: ResponseBody

definition NextResponse_json :: "ResponseBody \<Rightarrow> nat \<Rightarrow> NextResponse" where
  "NextResponse_json b st = \<lparr>status = st, body = b\<rparr>"

definition getClientIP :: "NextRequest \<Rightarrow> string" where
  "getClientIP request =
     (let forwarded = headers request ''x-forwarded-for'';
          realIP = headers request ''x-real-ip''
      in case (if truthy forwarded then forwarded else None) of
           Some f \<Rightarrow> trim (takeWhile (\<lambda>c. c \<noteq> CHR '','') f)
         | None \<Rightarrow>
             (case (if truthy realIP then realIP else None) of
                Some r \<Rightarrow> r
              | None \<Rightarrow> ''unknown''))"

section \<open>The authorization guard\<close>

record AuthenticatedUser =
  email :: string
  role :: string
  display_name :: "string option"

record AuthContext =
  user :: AuthenticatedUser
  request :: NextRequest

text \<open>
  The process state a request runs against: the singleton \<open>allowListService\<close> and the
  database. A handler returns a response or throws (\<open>Inl\<close> the error's message).
\<close>

type_synonym world = "AllowListService \<times> database"

type_synonym handler = "AuthContext \<Rightarrow> world \<Rightarrow> (string + NextResponse) \<times> world"

text \<open>The \<open>try\<close> block of the function that \<open>createAuthGuard\<close> returns.\<close>

definition guard_try ::
  "handler \<Rightarrow> Clerk \<Rightarrow> int \<Rightarrow> NextRequest \<Rightarrow> world \<Rightarrow> (string + NextResponse) \<times> world" where
  "guard_try h clerk now req w =
     (case auth_error clerk of
        Some msg \<Rightarrow> (Inl msg, w)
      | None \<Rightarrow>
          if \<not> truthy (Clerk.userId clerk)
          then (Inr (NextResponse_json (ErrorBody (Some ''Unauthorized'')) 401), w)
          else
            (case getSignedInEmail clerk of
               Inl msg \<Rightarrow> (Inl msg, w)
             | Inr ident \<Rightarrow>
                 (case (if truthy (SignedInIdentity.email ident)
                        then SignedInIdentity.email ident else None) of
                    None \<Rightarrow>
                      (Inr (NextResponse_json (ErrorBody (Some ''Unauthorized'')) 401),
                       (fst w,
                        logAuthEvent (snd w) now None api_deny (Some (pathname req))
                          (Some (getClientIP req)) (headers req ''user-agent'')
                          (Some [(''error'', Str ''No email in session claims'')])))
                  | Some e \<Rightarrow>
                      (let (allowListResult, svc') = isEmailAllowed (fst w) (snd w) now e in
                       if \<not> allowed allowListResult
                       then
                         (Inr (NextResponse_json (ErrorBody (Some ''Forbidden'')) 403),
                          (svc',
                           logAuthEvent (snd w) now (Some e) api_deny (Some (pathname req))
                             (Some (getClientIP req)) (headers req ''user-agent'')
                             (Some [(''reason'', Str ''not_in_allowlist''),
                                    (''active'',
                                     case AllowListResult.user allowListResult of
                                       None \<Rightarrow> Undefined
                                     | Some u \<Rightarrow> Bool (active u))])))
                       else
                         (let db' = logAuthEvent (snd w) now (Some e) api_allow
                                      (Some (pathname req)) (Some (getClientIP req))
                                      (headers req ''user-agent'')
                                      (Some [(''role'',
                                              case AllowListResult.user allowListResult of
                                                None \<Rightarrow> Undefined
                                              | Some u \<Rightarrow> Str (AllowedUser.role u))]);
                              context = \<lparr>user =
                                \<lparr>AuthenticatedUser.email = e,
                                 role = (case AllowListResult.user allowListResult of
                                           None \<Rightarrow> ''viewer''
                                         | Some u \<Rightarrow>
                                             if AllowedUser.role u = [] then ''viewer''
                                             else AllowedUser.role u),
                                 display_name =
                                   (case AllowListResult.user allowListResult of
                                      None \<Rightarrow> None
                                    | Some u \<Rightarrow>
                                        if truthy (AllowedUser.display_name u)
                                        then AllowedUser.display_name u else None)\<rparr>,
                                request = req\<rparr>
                          in h context (svc', db'))))))"

text \<open>The \<open>catch\<close> block: log \<open>api_deny\<close> without an email and answer 500.\<close>

definition createAuthGuard ::
  "handler \<Rightarrow> Clerk \<Rightarrow> int \<Rightarrow> NextRequest \<Rightarrow> world \<Rightarrow> NextResponse \<times> world" where
  "createAuthGuard h clerk now req w =
     (case guard_try h clerk now req w of
        (Inr response, w') \<Rightarrow> (response, w')
      | (Inl msg, w') \<Rightarrow>
          (NextResponse_json (ErrorBody (Some ''Internal server error'')) 500,
           (fst w',
            logAuthEvent (snd w') now None api_deny (Some (pathname req))
              (Some (getClientIP req)) (headers req ''user-agent'')
              (Some [(''error'', Str msg)]))))"




section \<open>The admin routes\<close>

text \<open>
  \<open>app/api/admin/users/route.ts\<close> and \<open>app/api/admin/users/[email]/toggle/route.ts\<close> do not
  use the guard above: each declares the same local \<open>requireAdmin\<close>, which is
  \<open>route_requireAdmin\<close> here. Its context carries no \<open>display_name\<close>.
\<close>

definition route_requireAdmin_try ::
  "handler \<Rightarrow> Clerk \<Rightarrow> int \<Rightarrow> NextRequest \<Rightarrow> world \<Rightarrow> (string + NextResponse) \<times> world" where
  "route_requireAdmin_try h clerk now req w =
     (case auth_error clerk of
        Some msg \<Rightarrow> (Inl msg, w)
      | None \<Rightarrow>
          if \<not> truthy (Clerk.userId clerk)
          then (Inr (NextResponse_json (ErrorBody (Some ''Unauthorized'')) 401), w)
          else
            (case getSignedInEmail clerk of
               Inl msg \<Rightarrow> (Inl msg, w)
             | Inr ident \<Rightarrow>
                 (case (if truthy (SignedInIdentity.email ident)
                        then SignedInIdentity.email ident else None) of
                    None \<Rightarrow>
                      (Inr (NextResponse_json (ErrorBody (Some ''No email in session'')) 401), w)
                  | Some e \<Rightarrow>
                      (let (allowListResult, svc') = isEmailAllowed (fst w) (snd w) now e in
                       case (if allowed allowListResult
                             then AllowListResult.user allowListResult else None) of
                         None \<Rightarrow>
                           (Inr (NextResponse_json
                                   (ErrorBody (Some ''User not found in allow list'')) 403),
                            (svc', snd w))
                       | Some u \<Rightarrow>
                           if AllowedUser.role u \<noteq> ''admin''
                           then (Inr (NextResponse_json
                                        (ErrorBody (Some ''Admin role required'')) 403),
                                 (svc', snd w))
                           else h \<lparr>user = \<lparr>AuthenticatedUser.email = AllowedUser.email u,
                                              role = AllowedUser.role u, display_name = None\<rparr>,
                                    request = req\<rparr>
                                  (svc', snd w)))))"

definition route_requireAdmin ::
  "handler \<Rightarrow> Clerk \<Rightarrow> int \<Rightarrow> NextRequest \<Rightarrow> world \<Rightarrow> NextResponse \<times> world" where
  "route_requireAdmin h clerk now req w =
     (case route_requireAdmin_try h clerk now req w of
        (Inr response, w') \<Rightarrow> (response, w')
      | (Inl msg, w') \<Rightarrow>
          (NextResponse_json (ErrorBody (Some ''Authentication failed'')) 500, w'))"

text \<open>
  The handler of \<open>POST /api/admin/users\<close>. Its own \<open>try/catch\<close> answers 500 when
  \<open>request.json()\<close> throws; nothing else in it throws.
\<close>

definition users_POST_handler :: "int \<Rightarrow> handler" where
  "users_POST_handler now context w =
     (case json (request context) of
        None \<Rightarrow> (Inr (NextResponse_json (ErrorBody (Some ''Failed to add user'')) 500), w)
      | Some b \<Rightarrow>
          (case (if truthy (UserBody.email b) then UserBody.email b else None) of
             None \<Rightarrow> (Inr (NextResponse_json (ErrorBody (Some ''Email is required'')) 400), w)
           | Some e \<Rightarrow>
               (let (result, svc', db') =
                      addUser (fst w) (snd w) now e
                        (case or_else (UserBody.display_name b) (Some []) of
                           None \<Rightarrow> [] | Some d \<Rightarrow> d)
                        (case or_else (UserBody.role b) (Some ''viewer'') of
                           None \<Rightarrow> ''viewer'' | Some r \<Rightarrow> r)
                        (AuthenticatedUser.email (user context))
                in if \<not> success result
                   then (Inr (NextResponse_json (ErrorBody (OpResult.error result)) 400),
                         (svc', db'))
                   else
                     (Inr (NextResponse_json (SuccessBody ''User added successfully'' None) 200),
                      (svc',
                       logAdminEvent db' now (Some (AuthenticatedUser.email (user context)))
                         admin_add_user (Some (pathname (request context)))
                         (Some (getClientIP (request context)))
                         (headers (request context) ''user-agent'')
                         (Some [(''added_email'', Str e),
                                (''role'', case UserBody.role b of
                                             None \<Rightarrow> Undefined | Some r \<Rightarrow> Str r)]))))))"

definition users_POST :: "Clerk \<Rightarrow> int \<Rightarrow> NextRequest \<Rightarrow> world \<Rightarrow> NextResponse \<times> world" where
  "users_POST clerk now req w = route_requireAdmin (users_POST_handler now) clerk now req w"

text \<open>
  The handler of \<open>PATCH /api/admin/users/[email]/toggle\<close>. \<open>decoded\<close> is
  \<open>decodeURIComponent(resolvedParams.email)\<close>, \<open>None\<close> when that throws.
\<close>

definition toggle_PATCH_handler :: "string option \<Rightarrow> int \<Rightarrow> handler" where
  "toggle_PATCH_handler decoded now context w =
     (case decoded of
        None \<Rightarrow>
          (Inr (NextResponse_json (ErrorBody (Some ''Failed to toggle user status'')) 500), w)
      | Some e \<Rightarrow>
          (let (result, svc', db') = toggleUserStatus (fst w) (snd w) now e
           in if \<not> success result
              then (Inr (NextResponse_json (ErrorBody (OpResult.error result)) 400), (svc', db'))
              else
                (Inr (NextResponse_json
                        (SuccessBody ''User status updated successfully'' (newStatus result)) 200),
                 (svc',
                  logAdminEvent db' now (Some (AuthenticatedUser.email (user context)))
                    admin_toggle_user (Some (pathname (request context)))
                    (Some (getClientIP (request context)))
                    (headers (request context) ''user-agent'')
                    (Some [(''toggled_email'', Str e),
                           (''new_status'', case newStatus result of
                                              None \<Rightarrow> Undefined | Some a \<Rightarrow> Bool a)])))))"

definition toggle_PATCH ::
  "string option \<Rightarrow> Clerk \<Rightarrow> int \<Rightarrow> NextRequest \<Rightarrow> world \<Rightarrow> NextResponse \<times> world" where
  "toggle_PATCH decoded clerk now req w =
     route_requireAdmin (toggle_PATCH_handler decoded now) clerk now req w"

section \<open>Vocabulary of the properties\<close>

text \<open>
  \<open>store_state\<close> is the answer that the store alone determines for a normalized email.
  The remaining constants are sample data for the instances further down.
\<close>

definition not_found :: AllowListResult where
  "not_found = \<lparr>allowed = False, user = None, error = Some ''Email not found in allow list''\<rparr>"

definition store_state :: "database \<Rightarrow> string \<Rightarrow> AllowListResult" where
  "store_state db k =
     (case auth_allowed_emails db k of
        None \<Rightarrow> not_found
      | Some u \<Rightarrow> \<lparr>allowed = active u, user = Some u, error = None\<rparr>)"

definition new_AllowListService :: AllowListService where
  "new_AllowListService = \<lparr>cache = Map.empty\<rparr>"

definition alice :: AllowedUser where
  "alice = \<lparr>AllowedUser.email = ''alice@example.com'', display_name = Some ''Alice'',
     role = ''viewer'', invited_by = Some ''system'', created_at = 0, updated_at = 0,
     active = True\<rparr>"

definition carol :: AllowedUser where
  "carol = \<lparr>AllowedUser.email = ''carol@example.com'', display_name = None,
     role = ''qa'', invited_by = Some ''root@example.com'', created_at = 10, updated_at = 20,
     active = False\<rparr>"

definition root :: AllowedUser where
  "root = \<lparr>AllowedUser.email = ''root@example.com'', display_name = Some ''Root'',
     role = ''admin'', invited_by = Some ''system'', created_at = 0, updated_at = 0,
     active = True\<rparr>"

definition example_db :: database where
  "example_db = \<lparr>auth_allowed_emails =
       [''alice@example.com'' \<mapsto> alice, ''carol@example.com'' \<mapsto> carol,
        ''root@example.com'' \<mapsto> root],
     auth_audit_log = [], audit_id_seq = 1, failing = (\<lambda>_. None)\<rparr>"

definition unreachable_db :: database where
  "unreachable_db = example_db\<lparr>failing := (\<lambda>_. Some ''connection refused'')\<rparr>"

definition warm_service :: AllowListService where
  "warm_service = \<lparr>cache =
     [''alice@example.com'' \<mapsto> \<lparr>CacheEntry.user = alice, timestamp = 1000\<rparr>]\<rparr>"

definition db_without_alice :: database where
  "db_without_alice = example_db\<lparr>auth_allowed_emails :=
     (auth_allowed_emails example_db)(''alice@example.com'' := None)\<rparr>"

definition db_alice_inactive :: database where
  "db_alice_inactive = example_db\<lparr>auth_allowed_emails :=
     (auth_allowed_emails example_db)(''alice@example.com'' \<mapsto> alice\<lparr>active := False\<rparr>)\<rparr>"

definition lost_db :: database where
  "lost_db = db_without_alice\<lparr>failing := (\<lambda>_. Some ''connection refused'')\<rparr>"

definition carol_service :: AllowListService where
  "carol_service = \<lparr>cache =
     [''carol@example.com'' \<mapsto> \<lparr>CacheEntry.user = carol, timestamp = 1000\<rparr>]\<rparr>"

definition alice_entry :: CacheEntry where
  "alice_entry = \<lparr>CacheEntry.user = alice, timestamp = 1000\<rparr>"

text \<open>
  For the audit log: \<open>matching_rows\<close> is the whole answer of the query without paging, the
  rows that satisfy the \<open>WHERE\<close> clause in the order of \<open>ORDER BY ts DESC\<close>, and \<open>page\<close> sets
  \<open>limit\<close> and \<open>offset\<close> of a query. For the guard: \<open>events_written db db'\<close> lists the
  events of the audit rows that \<open>db'\<close> has beyond those of \<open>db\<close>; a handler is \<open>quiet\<close> when
  it writes no audit row and leaves the store's failures as they are, and \<open>never_throws\<close>
  when it always returns a response. \<open>tame\<close> is what the guard's proof needs of a handler:
  it writes no audit row, or (when \<open>b\<close> holds) one \<open>api_deny\<close> row and then returns.
\<close>

definition matching_rows :: "database \<Rightarrow> AuditLogQuery \<Rightarrow> AuditLogEntry list" where
  "matching_rows db q = order_by_ts_desc (filter (whereClause q) (auth_audit_log db))"

definition page :: "AuditLogQuery \<Rightarrow> int \<Rightarrow> int \<Rightarrow> AuditLogQuery" where
  "page q l k = q\<lparr>limit := Some l, offset := Some k\<rparr>"




definition root_clerk :: Clerk where
  "root_clerk = \<lparr>auth_error = None, userId = Some ''user_1'',
     sessionClaims = Some \<lparr>SessionClaims.email = Some ''Root@Example.com'', email_address = None,
       email_addresses = None\<rparr>,
     currentUser = Inr None\<rparr>"

definition alice_clerk :: Clerk where
  "alice_clerk = \<lparr>auth_error = None, userId = Some ''user_2'',
     sessionClaims = Some \<lparr>SessionClaims.email = None, email_address = None,
       email_addresses = None\<rparr>,
     currentUser = Inr (Some \<lparr>primaryEmailAddress = Some ''alice@example.com'',
       emailAddresses = [''alice@example.com'']\<rparr>)\<rparr>"

definition add_bob_request :: NextRequest where
  "add_bob_request = \<lparr>pathname = ''/api/admin/users'',
     headers = [''x-forwarded-for'' \<mapsto> ''203.0.113.7, 10.0.0.1'', ''user-agent'' \<mapsto> ''curl''],
     json = Some \<lparr>UserBody.email = Some ''bob@example.com'', display_name = Some ''Bob'',
       role = Some ''viewer''\<rparr>\<rparr>"

definition write_failing_db :: database where
  "write_failing_db = example_db\<lparr>failing :=
     (\<lambda>s. if s \<in> set [UPSERT_allowed, TOGGLE_allowed, DELETE_allowed]
          then Some ''connection terminated unexpectedly'' else None)\<rparr>"





definition ok_handler :: handler where
  "ok_handler context w = (Inr (NextResponse_json (SuccessBody ''ok'' None) 200), w)"


definition profile_request :: NextRequest where
  "profile_request = \<lparr>pathname = ''/api/user/profile'',
     headers = [''x-real-ip'' \<mapsto> ''203.0.113.7''], json = None\<rparr>"

definition no_session_clerk :: Clerk where
  "no_session_clerk = \<lparr>auth_error = None, userId = None, sessionClaims = None,
     currentUser = Inr None\<rparr>"

section \<open>Normalization\<close>

lemma isWhiteSpace_toLowerChar: "isWhiteSpace (toLowerChar c) = isWhiteSpace c"
  unfolding isWhiteSpace_def toLowerChar_def isUpperCase_def Let_def
  by (auto simp: of_char_of)

lemma toLowerChar_idem: "toLowerChar (toLowerChar c) = toLowerChar c"
  unfolding toLowerChar_def isUpperCase_def Let_def
  by (auto simp: of_char_of)

lemma toLowerCase_idem: "toLowerCase (toLowerCase s) = toLowerCase s"
  by (simp add: toLowerCase_def toLowerChar_idem)

lemma set_trim: "set (trim s) \<subseteq> set s"
proof -
  have "set (trim s) \<subseteq> set (dropWhile isWhiteSpace s)"
    unfolding trim_def using set_dropWhileD by fastforce
  also have "\<dots> \<subseteq> set s" using set_dropWhileD by fastforce
  finally show ?thesis .
qed

lemma toLowerCase_normalizeEmail: "toLowerCase (normalizeEmail e) = normalizeEmail e"
proof -
  have "\<forall>c \<in> set (normalizeEmail e). toLowerChar c = c"
  proof
    fix c assume "c \<in> set (normalizeEmail e)"
    then have "c \<in> set (toLowerCase e)"
      unfolding normalizeEmail_def using set_trim by blast
    then show "toLowerChar c = c"
      by (auto simp: toLowerCase_def toLowerChar_idem)
  qed
  then show ?thesis
    unfolding toLowerCase_def by (simp add: map_idI)
qed

lemma citext_normalizeEmail: "citext (normalizeEmail e) = normalizeEmail e"
  by (simp add: citext_def toLowerCase_normalizeEmail)

lemma trim_padding:
  assumes "\<forall>c \<in> set l. isWhiteSpace c" and "\<forall>c \<in> set r. isWhiteSpace c"
  shows "trim (l @ m @ r) = trim m"
proof -
  have left: "dropWhile isWhiteSpace (l @ m @ r) = dropWhile isWhiteSpace (m @ r)"
    using assms(1) by (simp add: dropWhile_append2)
  have r': "\<forall>c \<in> set (rev r). isWhiteSpace c" using assms(2) by simp
  show ?thesis
  proof (cases "\<forall>c \<in> set m. isWhiteSpace c")
    case True
    then have a: "dropWhile isWhiteSpace (m @ r) = []"
      using assms(2) by (simp add: dropWhile_eq_Nil_conv ball_Un)
    from True have b: "dropWhile isWhiteSpace m = []"
      by (simp add: dropWhile_eq_Nil_conv)
    show ?thesis unfolding trim_def left a b by simp
  next
    case False
    then have a: "dropWhile isWhiteSpace (m @ r) = dropWhile isWhiteSpace m @ r"
      by (auto simp: dropWhile_append1)
    have b: "dropWhile isWhiteSpace (rev r @ rev (dropWhile isWhiteSpace m))
               = dropWhile isWhiteSpace (rev (dropWhile isWhiteSpace m))"
      by (rule dropWhile_append2) (use r' in blast)
    show ?thesis unfolding trim_def left a rev_append b ..
  qed
qed

lemma normalizeEmail_padding_case:
  assumes "\<forall>c \<in> set (l @ r). isWhiteSpace c"
  shows "normalizeEmail (l @ m @ r) = normalizeEmail m"
proof -
  have "\<forall>c \<in> set (toLowerCase l). isWhiteSpace c" "\<forall>c \<in> set (toLowerCase r). isWhiteSpace c"
    using assms by (auto simp: toLowerCase_def isWhiteSpace_toLowerChar)
  then show ?thesis
    unfolding normalizeEmail_def
    using trim_padding[of "toLowerCase l" "toLowerCase r" "toLowerCase m"]
    by (simp add: toLowerCase_def)
qed

lemma normalizeEmail_case:
  assumes "toLowerCase m = toLowerCase m'"
  shows "normalizeEmail m = normalizeEmail m'"
  using assms by (simp add: normalizeEmail_def)

section \<open>Lookups and mutations\<close>

lemma select_normalized:
  "query_select_allowed db (normalizeEmail e) =
     (case failing db SELECT_allowed of
        Some msg \<Rightarrow> Inl msg
      | None \<Rightarrow> Inr (case auth_allowed_emails db (normalizeEmail e) of None \<Rightarrow> [] | Some u \<Rightarrow> [u]))"
  by (simp add: query_select_allowed_def citext_normalizeEmail split: option.splits)

lemma isEmailAllowed_miss:
  assumes "cache_hit svc now (normalizeEmail e) = None" and "failing db SELECT_allowed = None"
  shows "fst (isEmailAllowed svc db now e) = store_state db (normalizeEmail e)"
  using assms
  by (simp add: isEmailAllowed_def select_normalized store_state_def not_found_def
      split: option.splits)

lemma cache_hit_deleted: "cache_hit (svc\<lparr>cache := (cache svc)(k := None)\<rparr>) now k = None"
  by (simp add: cache_hit_def)

lemma upsert_failing: "query_upsert_allowed db t k dn ro i = Inr db' \<Longrightarrow> failing db' = failing db"
  by (auto simp: query_upsert_allowed_def split: option.splits if_splits)

lemma addUser_success:
  assumes "addUser svc db t e dn ro i = (r, svc', db')" and "success r"
  shows "svc' = svc\<lparr>cache := (cache svc)(normalizeEmail e := None)\<rparr>"
    and "failing db' = failing db"
    and "\<exists>u. auth_allowed_emails db' (normalizeEmail e) = Some u \<and> AllowedUser.role u = ro
           \<and> AllowedUser.display_name u = Some dn \<and> invited_by u = Some i
           \<and> (auth_allowed_emails db (normalizeEmail e) = None \<longrightarrow> active u)"
    and "\<forall>k. k \<noteq> normalizeEmail e \<longrightarrow> auth_allowed_emails db' k = auth_allowed_emails db k"
  using assms
  by (auto simp: addUser_def Let_def query_upsert_allowed_def citext_normalizeEmail
      split: sum.splits option.splits if_splits)



lemma isEmailAllowed_after_invalidation:
  assumes "normalizeEmail e' = k" and "failing db SELECT_allowed = None"
  shows "fst (isEmailAllowed (svc\<lparr>cache := (cache svc)(k := None)\<rparr>) db now e') = store_state db k"
  using isEmailAllowed_miss[of "svc\<lparr>cache := (cache svc)(k := None)\<rparr>" now e' db] assms
  by (simp add: cache_hit_def)

lemma isEmailAllowed_hit:
  assumes "cache_hit svc now (normalizeEmail e) = Some u"
  shows "isEmailAllowed svc db now e = (\<lparr>allowed = active u, user = Some u, error = None\<rparr>, svc)"
  using assms by (simp add: isEmailAllowed_def)

lemma isEmailAllowed_miss_row:
  assumes "cache_hit svc now (normalizeEmail e) = None" and "failing db SELECT_allowed = None"
    and "auth_allowed_emails db (normalizeEmail e) = Some u"
  shows "isEmailAllowed svc db now e =
           (\<lparr>allowed = active u, user = Some u, error = None\<rparr>,
            svc\<lparr>cache := (cache svc)(normalizeEmail e \<mapsto>
                   \<lparr>CacheEntry.user = u, timestamp = now\<rparr>)\<rparr>)"
  using assms by (simp add: isEmailAllowed_def select_normalized)

lemma isEmailAllowed_miss_no_row:
  assumes "cache_hit svc now (normalizeEmail e) = None" and "failing db SELECT_allowed = None"
    and "auth_allowed_emails db (normalizeEmail e) = None"
  shows "isEmailAllowed svc db now e =
           (\<lparr>allowed = False, user = None, error = Some ''Email not found in allow list''\<rparr>, svc)"
  using assms by (simp add: isEmailAllowed_def select_normalized)

lemma isEmailAllowed_miss_failing:
  assumes "cache_hit svc now (normalizeEmail e) = None" and "failing db SELECT_allowed = Some msg"
  shows "isEmailAllowed svc db now e = (\<lparr>allowed = False, user = None, error = Some msg\<rparr>, svc)"
  using assms by (simp add: isEmailAllowed_def query_select_allowed_def)

lemma isEmailAllowed_error_denies:
  assumes "AllowListResult.error (fst (isEmailAllowed svc db now e)) \<noteq> None"
  shows "\<not> allowed (fst (isEmailAllowed svc db now e))"
    and "AllowListResult.user (fst (isEmailAllowed svc db now e)) = None"
  using assms
  by (auto simp: isEmailAllowed_def Let_def split: option.splits sum.splits list.splits)

lemma isEmailAllowed_cache_entries:
  assumes "cache (snd (isEmailAllowed svc db now e)) k = Some c"
  shows "cache svc k = Some c
         \<or> (k = normalizeEmail e \<and> failing db SELECT_allowed = None
            \<and> auth_allowed_emails db k = Some (CacheEntry.user c) \<and> timestamp c = now)"
  using assms
  by (auto simp: isEmailAllowed_def Let_def select_normalized
      split: option.splits sum.splits list.splits if_splits)

lemma addUser_cache_entries:
  assumes "cache (fst (snd (addUser svc db t e dn ro i))) k = Some c"
  shows "cache svc k = Some c"
  using assms
  by (auto simp: addUser_def Let_def split: sum.splits if_splits)

lemma removeUser_cache_entries:
  assumes "cache (fst (snd (removeUser svc db e))) k = Some c"
  shows "cache svc k = Some c"
  using assms
  by (auto simp: removeUser_def Let_def split: sum.splits if_splits)

lemma toggleUserStatus_cache_entries:
  assumes "cache (fst (snd (toggleUserStatus svc db t e))) k = Some c"
  shows "cache svc k = Some c"
  using assms
  by (auto simp: toggleUserStatus_def Let_def split: sum.splits if_splits list.splits prod.splits)

lemma isEmailAllowed_no_user_keeps_cache:
  assumes "AllowListResult.user (fst (isEmailAllowed svc db now e)) = None"
  shows "snd (isEmailAllowed svc db now e) = svc"
  using assms
  by (auto simp: isEmailAllowed_def Let_def split: option.splits sum.splits list.splits)

lemma isEmailAllowed_miss_absent:
  assumes "cache_hit svc now (normalizeEmail e) = None"
    and "auth_allowed_emails db (normalizeEmail e) = None"
  shows "isEmailAllowed svc db now e =
           (case query_select_allowed db (normalizeEmail e) of
              Inl msg \<Rightarrow> \<lparr>allowed = False, user = None, error = Some msg\<rparr>
            | Inr rows \<Rightarrow>
                \<lparr>allowed = False, user = None, error = Some ''Email not found in allow list''\<rparr>,
            svc)"
  using assms by (simp add: isEmailAllowed_def select_normalized split: option.splits)

lemma added_email_visible:
  assumes "auth_allowed_emails db (normalizeEmail e) = None"
    and "failing db SELECT_allowed = None"
    and "addUser svc db t e dn ro i = (r, svc', db')" and "success r"
  shows "allowed (fst (isEmailAllowed svc' db' t' e))"
    and "map_option AllowedUser.role (AllowListResult.user (fst (isEmailAllowed svc' db' t' e))) = Some ro"
proof -
  note f = addUser_success[OF assms(3,4)]
  have "fst (isEmailAllowed svc' db' t' e) = store_state db' (normalizeEmail e)"
    unfolding f(1) using assms(2) f(2) by (intro isEmailAllowed_after_invalidation) simp_all
  moreover from f(3) assms(1) obtain u where
    "auth_allowed_emails db' (normalizeEmail e) = Some u" "AllowedUser.role u = ro" "active u"
    by blast
  ultimately show "allowed (fst (isEmailAllowed svc' db' t' e))"
    and "map_option AllowedUser.role (AllowListResult.user (fst (isEmailAllowed svc' db' t' e))) = Some ro"
    by (simp_all add: store_state_def)
qed

section \<open>Claims about the allow-list service\<close>

text \<open>
  Claim C4. Two spellings of an email that differ only in letter case and in white space
  around it get the same answer, and leave the same cache, in every state of the cache and
  the store: \<open>l\<close>, \<open>r\<close>, \<open>l'\<close>, \<open>r'\<close> are the paddings, \<open>m\<close> and \<open>m'\<close> the two
  spellings of the address itself.
\<close>

theorem isEmailAllowed_normalization_equivalence:
  assumes "\<forall>c \<in> set (l @ r @ l' @ r'). isWhiteSpace c" and "toLowerCase m = toLowerCase m'"
  shows "isEmailAllowed svc db now (l @ m @ r) = isEmailAllowed svc db now (l' @ m' @ r')"
proof -
  have "normalizeEmail (l @ m @ r) = normalizeEmail m"
    using assms(1) by (intro normalizeEmail_padding_case) auto
  moreover have "normalizeEmail (l' @ m' @ r') = normalizeEmail m'"
    using assms(1) by (intro normalizeEmail_padding_case) auto
  moreover have "normalizeEmail m = normalizeEmail m'"
    using assms(2) by (rule normalizeEmail_case)
  ultimately show ?thesis by (simp add: isEmailAllowed_def)
qed

theorem isEmailAllowed_normalization_equivalence_witness:
  "list_all isWhiteSpace ('' '' @ ''  '' @ [] @ [])
   \<and> toLowerCase ''Alice@Example.COM'' = toLowerCase ''alice@example.com''
   \<and> isEmailAllowed new_AllowListService example_db 5 ('' '' @ ''Alice@Example.COM'' @ ''  '')
       = isEmailAllowed new_AllowListService example_db 5 ([] @ ''alice@example.com'' @ [])
   \<and> allowed (fst (isEmailAllowed new_AllowListService example_db 5 '' Alice@Example.COM  ''))"
proof -
  have h1: "\<forall>c \<in> set ('' '' @ ''  '' @ [] @ []). isWhiteSpace c"
    by (simp add: isWhiteSpace_def)
  have h2: "toLowerCase ''Alice@Example.COM'' = toLowerCase ''alice@example.com''"
    by code_simp
  have h3: "allowed (fst (isEmailAllowed new_AllowListService example_db 5 '' Alice@Example.COM  ''))"
    by code_simp
  have h0: "list_all isWhiteSpace ('' '' @ ''  '' @ [] @ [])"
    using h1 by (simp only: list_all_iff)
  from isEmailAllowed_normalization_equivalence[OF h1 h2, of new_AllowListService example_db 5]
    h0 h2 h3
  show ?thesis by blast
qed



text \<open>
  Claim C3, as the code has it. \<open>isEmailAllowed\<close> returns a result in every case (the model
  has no throwing outcome left after the \<open>catch\<close>). When no cache entry younger than the
  timeout answers the lookup: an email without a row gets the not-found denial, and a
  \<open>query\<close> that throws gets a denial carrying the thrown message. Every result with
  \<open>error\<close> set denies and carries no user. A cache entry younger than the timeout is
  answered from the cache, without an error, whatever the store holds.
\<close>

theorem isEmailAllowed_fails_closed:
  "(cache_hit svc now (normalizeEmail e) = None \<and> failing db SELECT_allowed = None
      \<and> auth_allowed_emails db (normalizeEmail e) = None \<longrightarrow>
      fst (isEmailAllowed svc db now e)
        = \<lparr>allowed = False, user = None, error = Some ''Email not found in allow list''\<rparr>)
   \<and> (cache_hit svc now (normalizeEmail e) = None \<and> failing db SELECT_allowed = Some msg \<longrightarrow>
      fst (isEmailAllowed svc db now e) = \<lparr>allowed = False, user = None, error = Some msg\<rparr>)
   \<and> (AllowListResult.error (fst (isEmailAllowed svc db now e)) \<noteq> None \<longrightarrow>
      \<not> allowed (fst (isEmailAllowed svc db now e))
      \<and> AllowListResult.user (fst (isEmailAllowed svc db now e)) = None)
   \<and> (cache_hit svc now (normalizeEmail e) = Some u \<longrightarrow>
      fst (isEmailAllowed svc db now e) = \<lparr>allowed = active u, user = Some u, error = None\<rparr>)"
proof (intro conjI impI)
  assume "cache_hit svc now (normalizeEmail e) = None \<and> failing db SELECT_allowed = None
      \<and> auth_allowed_emails db (normalizeEmail e) = None"
  then show "fst (isEmailAllowed svc db now e)
        = \<lparr>allowed = False, user = None, error = Some ''Email not found in allow list''\<rparr>"
    using isEmailAllowed_miss_no_row[of svc now e db] by simp
next
  assume "cache_hit svc now (normalizeEmail e) = None \<and> failing db SELECT_allowed = Some msg"
  then show "fst (isEmailAllowed svc db now e) = \<lparr>allowed = False, user = None, error = Some msg\<rparr>"
    using isEmailAllowed_miss_failing[of svc now e db msg] by simp
next
  assume "AllowListResult.error (fst (isEmailAllowed svc db now e)) \<noteq> None"
  then show "\<not> allowed (fst (isEmailAllowed svc db now e))"
    by (rule isEmailAllowed_error_denies)
next
  assume "AllowListResult.error (fst (isEmailAllowed svc db now e)) \<noteq> None"
  then show "AllowListResult.user (fst (isEmailAllowed svc db now e)) = None"
    by (rule isEmailAllowed_error_denies)
next
  assume "cache_hit svc now (normalizeEmail e) = Some u"
  then show "fst (isEmailAllowed svc db now e) = \<lparr>allowed = active u, user = Some u, error = None\<rparr>"
    using isEmailAllowed_hit[of svc now e u db] by simp
qed

theorem isEmailAllowed_fails_closed_witness:
  "cache_hit warm_service 301000 (normalizeEmail ''Alice@Example.com'') = None
   \<and> failing db_without_alice SELECT_allowed = None
   \<and> auth_allowed_emails db_without_alice (normalizeEmail ''Alice@Example.com'') = None
   \<and> failing unreachable_db SELECT_allowed = Some ''connection refused''
   \<and> cache_hit warm_service 2000 (normalizeEmail ''Alice@Example.com'') = Some alice
   \<and> fst (isEmailAllowed warm_service db_without_alice 301000 ''Alice@Example.com'')
       = \<lparr>allowed = False, user = None, error = Some ''Email not found in allow list''\<rparr>
   \<and> fst (isEmailAllowed warm_service unreachable_db 301000 ''Alice@Example.com'')
       = \<lparr>allowed = False, user = None, error = Some ''connection refused''\<rparr>
   \<and> AllowListResult.error
         (fst (isEmailAllowed warm_service db_without_alice 301000 ''Alice@Example.com'')) \<noteq> None
   \<and> \<not> allowed (fst (isEmailAllowed warm_service db_without_alice 301000 ''Alice@Example.com''))
   \<and> fst (isEmailAllowed warm_service example_db 2000 ''Alice@Example.com'')
       = \<lparr>allowed = active alice, user = Some alice, error = None\<rparr>"
proof -
  have h1: "cache_hit warm_service 301000 (normalizeEmail ''Alice@Example.com'') = None"
    by code_simp
  have h2: "failing db_without_alice SELECT_allowed = None"
    by (simp add: db_without_alice_def example_db_def)
  have h3: "auth_allowed_emails db_without_alice (normalizeEmail ''Alice@Example.com'') = None"
    by code_simp
  have h4: "failing unreachable_db SELECT_allowed = Some ''connection refused''"
    by (simp add: unreachable_db_def)
  have h5: "cache_hit warm_service 2000 (normalizeEmail ''Alice@Example.com'') = Some alice"
    by code_simp
  note c1 = isEmailAllowed_fails_closed[where svc = warm_service and db = db_without_alice and now = 301000
      and e = "''Alice@Example.com''" and u = alice and msg = "''connection refused''"]
  note c2 = isEmailAllowed_fails_closed[where svc = warm_service and db = unreachable_db and now = 301000
      and e = "''Alice@Example.com''" and u = alice and msg = "''connection refused''"]
  note c3 = isEmailAllowed_fails_closed[where svc = warm_service and db = example_db and now = 2000
      and e = "''Alice@Example.com''" and u = alice and msg = "''connection refused''"]
  have r1: "fst (isEmailAllowed warm_service db_without_alice 301000 ''Alice@Example.com'')
       = \<lparr>allowed = False, user = None, error = Some ''Email not found in allow list''\<rparr>"
    using c1 h1 h2 h3 by blast
  have r2: "fst (isEmailAllowed warm_service unreachable_db 301000 ''Alice@Example.com'')
       = \<lparr>allowed = False, user = None, error = Some ''connection refused''\<rparr>"
    using c2 h1 h4 by blast
  have r3: "AllowListResult.error
         (fst (isEmailAllowed warm_service db_without_alice 301000 ''Alice@Example.com'')) \<noteq> None"
    by (simp add: r1)
  have r4: "\<not> allowed (fst (isEmailAllowed warm_service db_without_alice 301000 ''Alice@Example.com''))"
    using c1 r3 by blast
  have r5: "fst (isEmailAllowed warm_service example_db 2000 ''Alice@Example.com'')
       = \<lparr>allowed = active alice, user = Some alice, error = None\<rparr>"
    using c3 h5 by blast
  show ?thesis using h1 h2 h3 h4 h5 r1 r2 r3 r4 r5 by blast
qed

text \<open>
  Claim C3 as stated fails where the cache still holds a young entry for an email whose row
  is gone from the store: the answer is the cached row, allowed, not the not-found denial.
\<close>

theorem young_cache_entry_answers_for_missing_row:
  "auth_allowed_emails db_without_alice (normalizeEmail ''alice@example.com'') = None
   \<and> failing db_without_alice SELECT_allowed = None
   \<and> fst (isEmailAllowed warm_service db_without_alice 2000 ''alice@example.com'')
       = \<lparr>allowed = True, user = Some alice, error = None\<rparr>"
  by code_simp

text \<open>
  Claim C7. When the store executes the update, toggling an email that has a row twice
  succeeds both times, each call returns the flipped value as \<open>newStatus\<close>, and the row's
  \<open>active\<close> is back at its original value; for an email without a row the call returns
  \<open>success = false\<close> with an error and leaves the store as it was.
\<close>

theorem toggleUserStatus_involution:
  "(failing db TOGGLE_allowed = None \<and> auth_allowed_emails db (normalizeEmail e) = Some u \<longrightarrow>
      (case toggleUserStatus svc db t1 e of (r1, svc1, db1) \<Rightarrow>
       case toggleUserStatus svc1 db1 t2 e of (r2, svc2, db2) \<Rightarrow>
         success r1 \<and> newStatus r1 = Some (\<not> active u)
         \<and> map_option active (auth_allowed_emails db1 (normalizeEmail e)) = Some (\<not> active u)
         \<and> success r2 \<and> newStatus r2 = Some (active u)
         \<and> map_option active (auth_allowed_emails db2 (normalizeEmail e)) = Some (active u)))
   \<and> (auth_allowed_emails db (normalizeEmail e) = None \<longrightarrow>
      (case toggleUserStatus svc db t1 e of (r, svc', db') \<Rightarrow>
         \<not> success r \<and> OpResult.error r \<noteq> None \<and> newStatus r = None \<and> db' = db
         \<and> (failing db TOGGLE_allowed = None \<longrightarrow> OpResult.error r = Some ''User not found'')))"
  by (auto simp: toggleUserStatus_def Let_def query_toggle_allowed_def citext_normalizeEmail
      split: option.splits)

theorem toggleUserStatus_involution_witness:
  "failing example_db TOGGLE_allowed = None
   \<and> auth_allowed_emails example_db (normalizeEmail ''Alice@example.com '') = Some alice
   \<and> auth_allowed_emails example_db (normalizeEmail ''bob@example.com'') = None
   \<and> (case toggleUserStatus warm_service example_db 2000 ''Alice@example.com '' of
         (r1, s1, d1) \<Rightarrow>
       case toggleUserStatus s1 d1 3000 ''Alice@example.com '' of
         (r2, s2, d2) \<Rightarrow>
           success r1 \<and> newStatus r1 = Some False \<and> success r2 \<and> newStatus r2 = Some True
           \<and> map_option active (auth_allowed_emails d2 (normalizeEmail ''Alice@example.com ''))
               = Some True)
   \<and> (case toggleUserStatus warm_service example_db 2000 ''bob@example.com'' of
         (r, s', d') \<Rightarrow> \<not> success r \<and> OpResult.error r = Some ''User not found'')"
proof -
  have h1: "failing example_db TOGGLE_allowed = None"
    by (simp add: example_db_def)
  have h2: "auth_allowed_emails example_db (normalizeEmail ''Alice@example.com '') = Some alice"
    by code_simp
  have h3: "auth_allowed_emails example_db (normalizeEmail ''bob@example.com'') = None"
    by code_simp
  have a: "active alice" by (simp add: alice_def)
  note c1 = toggleUserStatus_involution[where db = example_db and e = "''Alice@example.com ''" and u = alice
      and svc = warm_service and ?t1.0 = 2000 and ?t2.0 = 3000, unfolded case_prod_beta]
  note c2 = toggleUserStatus_involution[where db = example_db and e = "''bob@example.com''"
      and svc = warm_service and ?t1.0 = 2000, unfolded case_prod_beta]
  show ?thesis
    unfolding case_prod_beta using c1 c2 h1 h2 h3 a by simp
qed

text \<open>
  Claim C8, as the code has it. When no cache entry younger than the timeout answers the
  lookup and the store answers it: an inactive row is denied and returned as \<open>user\<close> without
  an error, and is written to the cache with the time of the lookup; an email without a row
  is denied without a user, with the not-found error, and the cache is left as it was. An
  inactive row in a young cache entry is denied and returned as \<open>user\<close> as well.
\<close>

theorem inactive_row_distinguished_from_absent:
  "(cache_hit svc now (normalizeEmail e) = None \<and> failing db SELECT_allowed = None
      \<and> auth_allowed_emails db (normalizeEmail e) = Some u \<and> \<not> active u \<longrightarrow>
      isEmailAllowed svc db now e =
        (\<lparr>allowed = False, user = Some u, error = None\<rparr>,
         svc\<lparr>cache := (cache svc)(normalizeEmail e \<mapsto>
                \<lparr>CacheEntry.user = u, timestamp = now\<rparr>)\<rparr>))
   \<and> (cache_hit svc now (normalizeEmail e) = None \<and> failing db SELECT_allowed = None
      \<and> auth_allowed_emails db (normalizeEmail e) = None \<longrightarrow>
      isEmailAllowed svc db now e =
        (\<lparr>allowed = False, user = None, error = Some ''Email not found in allow list''\<rparr>, svc))
   \<and> (cache_hit svc now (normalizeEmail e) = Some u \<and> \<not> active u \<longrightarrow>
      isEmailAllowed svc db now e = (\<lparr>allowed = False, user = Some u, error = None\<rparr>, svc))"
proof (intro conjI impI)
  assume "cache_hit svc now (normalizeEmail e) = None \<and> failing db SELECT_allowed = None
      \<and> auth_allowed_emails db (normalizeEmail e) = Some u \<and> \<not> active u"
  then show "isEmailAllowed svc db now e =
        (\<lparr>allowed = False, user = Some u, error = None\<rparr>,
         svc\<lparr>cache := (cache svc)(normalizeEmail e \<mapsto>
                \<lparr>CacheEntry.user = u, timestamp = now\<rparr>)\<rparr>)"
    using isEmailAllowed_miss_row[of svc now e db u] by simp
next
  assume "cache_hit svc now (normalizeEmail e) = None \<and> failing db SELECT_allowed = None
      \<and> auth_allowed_emails db (normalizeEmail e) = None"
  then show "isEmailAllowed svc db now e =
        (\<lparr>allowed = False, user = None, error = Some ''Email not found in allow list''\<rparr>, svc)"
    using isEmailAllowed_miss_no_row[of svc now e db] by simp
next
  assume "cache_hit svc now (normalizeEmail e) = Some u \<and> \<not> active u"
  then show "isEmailAllowed svc db now e = (\<lparr>allowed = False, user = Some u, error = None\<rparr>, svc)"
    using isEmailAllowed_hit[of svc now e u db] by simp
qed

theorem inactive_row_distinguished_from_absent_witness:
  "cache_hit warm_service 301000 (normalizeEmail '' ALICE@example.com'') = None
   \<and> failing db_alice_inactive SELECT_allowed = None
   \<and> auth_allowed_emails db_alice_inactive (normalizeEmail '' ALICE@example.com'')
       = Some (alice\<lparr>active := False\<rparr>)
   \<and> \<not> active (alice\<lparr>active := False\<rparr>)
   \<and> failing db_without_alice SELECT_allowed = None
   \<and> auth_allowed_emails db_without_alice (normalizeEmail '' ALICE@example.com'') = None
   \<and> cache_hit carol_service 2000 (normalizeEmail ''carol@example.com'') = Some carol
   \<and> \<not> active carol
   \<and> isEmailAllowed warm_service db_alice_inactive 301000 '' ALICE@example.com'' =
        (\<lparr>allowed = False, user = Some (alice\<lparr>active := False\<rparr>), error = None\<rparr>,
         warm_service\<lparr>cache := (cache warm_service)(normalizeEmail '' ALICE@example.com'' \<mapsto>
                \<lparr>CacheEntry.user = alice\<lparr>active := False\<rparr>, timestamp = 301000\<rparr>)\<rparr>)
   \<and> isEmailAllowed warm_service db_without_alice 301000 '' ALICE@example.com'' =
        (\<lparr>allowed = False, user = None, error = Some ''Email not found in allow list''\<rparr>,
         warm_service)
   \<and> isEmailAllowed carol_service example_db 2000 ''carol@example.com'' =
        (\<lparr>allowed = False, user = Some carol, error = None\<rparr>, carol_service)"
proof -
  have h1: "cache_hit warm_service 301000 (normalizeEmail '' ALICE@example.com'') = None"
    by code_simp
  have h2: "failing db_alice_inactive SELECT_allowed = None"
    by (simp add: db_alice_inactive_def example_db_def)
  have h3: "auth_allowed_emails db_alice_inactive (normalizeEmail '' ALICE@example.com'')
       = Some (alice\<lparr>active := False\<rparr>)"
    by code_simp
  have h4: "\<not> active (alice\<lparr>active := False\<rparr>)" by simp
  have h5: "failing db_without_alice SELECT_allowed = None"
    by (simp add: db_without_alice_def example_db_def)
  have h6: "auth_allowed_emails db_without_alice (normalizeEmail '' ALICE@example.com'') = None"
    by code_simp
  have h7: "cache_hit carol_service 2000 (normalizeEmail ''carol@example.com'') = Some carol"
    by code_simp
  have h8: "\<not> active carol" by (simp add: carol_def)
  note c1 = inactive_row_distinguished_from_absent[where svc = warm_service and db = db_alice_inactive and now = 301000
      and e = "'' ALICE@example.com''" and u = "alice\<lparr>active := False\<rparr>"]
  note c2 = inactive_row_distinguished_from_absent[where svc = warm_service and db = db_without_alice and now = 301000
      and e = "'' ALICE@example.com''" and u = "alice\<lparr>active := False\<rparr>"]
  note c3 = inactive_row_distinguished_from_absent[where svc = carol_service and db = example_db and now = 2000
      and e = "''carol@example.com''" and u = carol]
  show ?thesis using c1 c2 c3 h1 h2 h3 h4 h5 h6 h7 h8 by blast
qed

text \<open>
  Claim C8 as stated fails where the cache holds a young entry of the row from before it was
  made inactive in the store: the lookup still allows.
\<close>

theorem young_cache_entry_allows_inactive_row:
  "map_option active (auth_allowed_emails db_alice_inactive (normalizeEmail ''alice@example.com''))
     = Some False
   \<and> failing db_alice_inactive SELECT_allowed = None
   \<and> allowed (fst (isEmailAllowed warm_service db_alice_inactive 300999 ''alice@example.com''))"
  by code_simp

text \<open>
  Claim C10, as the code has it. After \<open>isEmailAllowed\<close> every cache entry was there before
  or is the row that the store has just returned for the normalized email, stamped with the
  time of the lookup; \<open>addUser\<close>, \<open>removeUser\<close> and \<open>toggleUserStatus\<close> add no entry; a
  result without a user leaves the cache as it was, so no negative result is ever cached.
  A lookup for an email without a row that no young cache entry answers is answered by the
  store's query; a cache hit always carries a row; and an email that \<open>addUser\<close> adds after a
  lookup found no row is allowed at the next lookup.
\<close>

theorem cache_entries_come_from_store_rows:
  "(cache (snd (isEmailAllowed svc db now e)) k = Some c \<longrightarrow>
      cache svc k = Some c
      \<or> (k = normalizeEmail e \<and> failing db SELECT_allowed = None
         \<and> auth_allowed_emails db k = Some (CacheEntry.user c) \<and> timestamp c = now))
   \<and> (cache (fst (snd (addUser svc db now e dn ro i))) k = Some c \<longrightarrow> cache svc k = Some c)
   \<and> (cache (fst (snd (removeUser svc db e))) k = Some c \<longrightarrow> cache svc k = Some c)
   \<and> (cache (fst (snd (toggleUserStatus svc db now e))) k = Some c \<longrightarrow> cache svc k = Some c)
   \<and> (AllowListResult.user (fst (isEmailAllowed svc db now e)) = None \<longrightarrow>
        snd (isEmailAllowed svc db now e) = svc)
   \<and> (cache_hit svc now (normalizeEmail e) = None
        \<and> auth_allowed_emails db (normalizeEmail e) = None \<longrightarrow>
        isEmailAllowed svc db now e =
          (case query_select_allowed db (normalizeEmail e) of
             Inl msg \<Rightarrow> \<lparr>allowed = False, user = None, error = Some msg\<rparr>
           | Inr rows \<Rightarrow>
               \<lparr>allowed = False, user = None, error = Some ''Email not found in allow list''\<rparr>,
           svc))
   \<and> (cache_hit svc now (normalizeEmail e) = Some u \<longrightarrow>
        AllowListResult.user (fst (isEmailAllowed svc db now e)) = Some u
        \<and> AllowListResult.error (fst (isEmailAllowed svc db now e)) = None)
   \<and> (auth_allowed_emails db (normalizeEmail e) = None \<and> failing db SELECT_allowed = None \<longrightarrow>
        (case isEmailAllowed svc db now e of (res0, svc0) \<Rightarrow>
         case addUser svc0 db t e dn ro i of (r, svc', db') \<Rightarrow>
           success r \<longrightarrow>
             allowed (fst (isEmailAllowed svc' db' t' e))
             \<and> map_option AllowedUser.role
                 (AllowListResult.user (fst (isEmailAllowed svc' db' t' e))) = Some ro))"
proof (intro conjI impI)
  assume "cache (snd (isEmailAllowed svc db now e)) k = Some c"
  then show "cache svc k = Some c
      \<or> (k = normalizeEmail e \<and> failing db SELECT_allowed = None
         \<and> auth_allowed_emails db k = Some (CacheEntry.user c) \<and> timestamp c = now)"
    by (rule isEmailAllowed_cache_entries)
next
  assume "cache (fst (snd (addUser svc db now e dn ro i))) k = Some c"
  then show "cache svc k = Some c" by (rule addUser_cache_entries)
next
  assume "cache (fst (snd (removeUser svc db e))) k = Some c"
  then show "cache svc k = Some c" by (rule removeUser_cache_entries)
next
  assume "cache (fst (snd (toggleUserStatus svc db now e))) k = Some c"
  then show "cache svc k = Some c" by (rule toggleUserStatus_cache_entries)
next
  assume "AllowListResult.user (fst (isEmailAllowed svc db now e)) = None"
  then show "snd (isEmailAllowed svc db now e) = svc"
    by (rule isEmailAllowed_no_user_keeps_cache)
next
  assume "cache_hit svc now (normalizeEmail e) = None
        \<and> auth_allowed_emails db (normalizeEmail e) = None"
  then show "isEmailAllowed svc db now e =
          (case query_select_allowed db (normalizeEmail e) of
             Inl msg \<Rightarrow> \<lparr>allowed = False, user = None, error = Some msg\<rparr>
           | Inr rows \<Rightarrow>
               \<lparr>allowed = False, user = None, error = Some ''Email not found in allow list''\<rparr>,
           svc)"
    by (intro isEmailAllowed_miss_absent) simp_all
next
  assume "cache_hit svc now (normalizeEmail e) = Some u"
  then show "AllowListResult.user (fst (isEmailAllowed svc db now e)) = Some u"
    using isEmailAllowed_hit[of svc now e u db] by simp
next
  assume "cache_hit svc now (normalizeEmail e) = Some u"
  then show "AllowListResult.error (fst (isEmailAllowed svc db now e)) = None"
    using isEmailAllowed_hit[of svc now e u db] by simp
next
  assume a: "auth_allowed_emails db (normalizeEmail e) = None \<and> failing db SELECT_allowed = None"
  show "case isEmailAllowed svc db now e of (res0, svc0) \<Rightarrow>
         case addUser svc0 db t e dn ro i of (r, svc', db') \<Rightarrow>
           success r \<longrightarrow>
             allowed (fst (isEmailAllowed svc' db' t' e))
             \<and> map_option AllowedUser.role
                 (AllowListResult.user (fst (isEmailAllowed svc' db' t' e))) = Some ro"
  proof (cases "isEmailAllowed svc db now e")
    case (Pair res0 svc0)
    show ?thesis
    proof (cases "addUser svc0 db t e dn ro i")
      case (fields r svc' db')
      show ?thesis
        using added_email_visible[OF _ _ fields, of t'] a
        by (simp add: Pair fields)
    qed
  qed
qed

theorem cache_entries_come_from_store_rows_witness:
  "cache (snd (isEmailAllowed new_AllowListService example_db 5 ''Alice@example.com''))
       ''alice@example.com'' = Some \<lparr>CacheEntry.user = alice, timestamp = 5\<rparr>
   \<and> cache (fst (snd (addUser warm_service example_db 5 ''carol@example.com'' ''C'' ''qa''
         ''root@example.com''))) ''alice@example.com'' = Some alice_entry
   \<and> cache (fst (snd (removeUser warm_service example_db ''carol@example.com'')))
       ''alice@example.com'' = Some alice_entry
   \<and> cache (fst (snd (toggleUserStatus warm_service example_db 5 ''carol@example.com'')))
       ''alice@example.com'' = Some alice_entry
   \<and> cache warm_service ''alice@example.com'' = Some alice_entry
   \<and> ''alice@example.com'' = normalizeEmail ''Alice@example.com''
   \<and> auth_allowed_emails example_db ''alice@example.com'' = Some alice
   \<and> AllowListResult.user (fst (isEmailAllowed warm_service example_db 5 ''bob@example.com''))
       = None
   \<and> snd (isEmailAllowed warm_service example_db 5 ''bob@example.com'') = warm_service
   \<and> cache_hit warm_service 5 (normalizeEmail ''bob@example.com'') = None
   \<and> auth_allowed_emails example_db (normalizeEmail ''bob@example.com'') = None
   \<and> failing example_db SELECT_allowed = None
   \<and> cache_hit warm_service 2000 (normalizeEmail ''Alice@example.com'') = Some alice
   \<and> AllowListResult.user (fst (isEmailAllowed warm_service example_db 2000 ''Alice@example.com''))
       = Some alice
   \<and> success (fst (addUser (snd (isEmailAllowed warm_service example_db 5 ''bob@example.com''))
         example_db 6 ''bob@example.com'' ''Bob'' ''qa'' ''root@example.com''))
   \<and> (case isEmailAllowed warm_service example_db 5 ''bob@example.com'' of (res0, svc0) \<Rightarrow>
       case addUser svc0 example_db 6 ''bob@example.com'' ''Bob'' ''qa'' ''root@example.com'' of
         (r, svc', db') \<Rightarrow>
           allowed (fst (isEmailAllowed svc' db' 7 ''bob@example.com''))
           \<and> map_option AllowedUser.role
               (AllowListResult.user (fst (isEmailAllowed svc' db' 7 ''bob@example.com'')))
               = Some ''qa'')"
proof -
  have a1: "cache (snd (isEmailAllowed new_AllowListService example_db 5 ''Alice@example.com''))
       ''alice@example.com'' = Some \<lparr>CacheEntry.user = alice, timestamp = 5\<rparr>"
    by code_simp
  have a2: "cache (fst (snd (addUser warm_service example_db 5 ''carol@example.com'' ''C'' ''qa''
         ''root@example.com''))) ''alice@example.com'' = Some alice_entry"
    by code_simp
  have a3: "cache (fst (snd (removeUser warm_service example_db ''carol@example.com'')))
       ''alice@example.com'' = Some alice_entry"
    by code_simp
  have a4: "cache (fst (snd (toggleUserStatus warm_service example_db 5 ''carol@example.com'')))
       ''alice@example.com'' = Some alice_entry"
    by code_simp
  have a5: "AllowListResult.user (fst (isEmailAllowed warm_service example_db 5 ''bob@example.com''))
       = None"
    by code_simp
  have a6: "cache_hit warm_service 5 (normalizeEmail ''bob@example.com'') = None"
    by code_simp
  have a7: "auth_allowed_emails example_db (normalizeEmail ''bob@example.com'') = None"
    by code_simp
  have a8: "failing example_db SELECT_allowed = None" by (simp add: example_db_def)
  have a9: "cache_hit warm_service 2000 (normalizeEmail ''Alice@example.com'') = Some alice"
    by code_simp
  have a10: "success (fst (addUser (snd (isEmailAllowed warm_service example_db 5 ''bob@example.com''))
         example_db 6 ''bob@example.com'' ''Bob'' ''qa'' ''root@example.com''))"
    by code_simp
  have b1: "cache warm_service ''alice@example.com'' = Some alice_entry"
    by code_simp
  have b2: "''alice@example.com'' = normalizeEmail ''Alice@example.com''"
    by code_simp
  have b3: "auth_allowed_emails example_db ''alice@example.com'' = Some alice"
    by code_simp
  note c1 = cache_entries_come_from_store_rows[where svc = new_AllowListService and db = example_db and now = 5
      and e = "''Alice@example.com''" and k = "''alice@example.com''"
      and c = "\<lparr>CacheEntry.user = alice, timestamp = 5\<rparr>"]
  note c2 = cache_entries_come_from_store_rows[where svc = warm_service and db = example_db and now = 5
      and e = "''carol@example.com''" and k = "''alice@example.com''" and c = alice_entry
      and dn = "''C''" and ro = "''qa''" and i = "''root@example.com''"]
  note c3 = cache_entries_come_from_store_rows[where svc = warm_service and db = example_db and now = 5
      and e = "''bob@example.com''" and t = 6 and dn = "''Bob''" and ro = "''qa''"
      and i = "''root@example.com''" and t' = 7, unfolded case_prod_beta]
  note c4 = cache_entries_come_from_store_rows[where svc = warm_service and db = example_db and now = 2000
      and e = "''Alice@example.com''" and u = alice]
  have r1: "snd (isEmailAllowed warm_service example_db 5 ''bob@example.com'') = warm_service"
    using c3 a5 by blast
  have r2: "AllowListResult.user (fst (isEmailAllowed warm_service example_db 2000 ''Alice@example.com''))
       = Some alice"
    using c4 a9 by blast
  have r3: "cache warm_service ''alice@example.com'' = Some alice_entry"
    using c2 a2 by blast
  have r4: "allowed (fst (isEmailAllowed
               (fst (snd (addUser (snd (isEmailAllowed warm_service example_db 5 ''bob@example.com''))
                   example_db 6 ''bob@example.com'' ''Bob'' ''qa'' ''root@example.com'')))
               (snd (snd (addUser (snd (isEmailAllowed warm_service example_db 5 ''bob@example.com''))
                   example_db 6 ''bob@example.com'' ''Bob'' ''qa'' ''root@example.com'')))
               7 ''bob@example.com''))
           \<and> map_option AllowedUser.role
               (AllowListResult.user (fst (isEmailAllowed
               (fst (snd (addUser (snd (isEmailAllowed warm_service example_db 5 ''bob@example.com''))
                   example_db 6 ''bob@example.com'' ''Bob'' ''qa'' ''root@example.com'')))
               (snd (snd (addUser (snd (isEmailAllowed warm_service example_db 5 ''bob@example.com''))
                   example_db 6 ''bob@example.com'' ''Bob'' ''qa'' ''root@example.com'')))
               7 ''bob@example.com'')))
               = Some ''qa''"
    using c3 a7 a8 a10 by blast
  have r5: "cache new_AllowListService ''alice@example.com''
              = Some \<lparr>CacheEntry.user = alice, timestamp = 5\<rparr>
      \<or> (''alice@example.com'' = normalizeEmail ''Alice@example.com''
         \<and> failing example_db SELECT_allowed = None
         \<and> auth_allowed_emails example_db ''alice@example.com''
             = Some (CacheEntry.user \<lparr>CacheEntry.user = alice, timestamp = 5\<rparr>)
         \<and> timestamp \<lparr>CacheEntry.user = alice, timestamp = 5\<rparr> = 5)"
    using c1 a1 by blast
  show ?thesis
    unfolding case_prod_beta
    using a1 a2 a3 a4 a5 a6 a7 a8 a9 a10 b2 b3 r1 r2 r3 r4 by blast
qed

text \<open>
  Claim C10 as stated fails where the cache still holds a young entry for an email whose row
  is gone from the store: the lookup is answered from the cache, and the store, which would
  throw here, is not queried.
\<close>

theorem young_cache_entry_served_without_query:
  "auth_allowed_emails lost_db (normalizeEmail ''alice@example.com'') = None
   \<and> query_select_allowed lost_db (normalizeEmail ''alice@example.com'') = Inl ''connection refused''
   \<and> isEmailAllowed warm_service lost_db 2000 ''alice@example.com''
       = (\<lparr>allowed = True, user = Some alice, error = None\<rparr>, warm_service)"
proof -
  have "auth_allowed_emails lost_db (normalizeEmail ''alice@example.com'') = None"
    by code_simp
  moreover have "query_select_allowed lost_db (normalizeEmail ''alice@example.com'')
      = Inl ''connection refused''"
    by code_simp
  moreover have "cache_hit warm_service 2000 (normalizeEmail ''alice@example.com'') = Some alice"
    by code_simp
  then have "isEmailAllowed warm_service lost_db 2000 ''alice@example.com''
       = (\<lparr>allowed = True, user = Some alice, error = None\<rparr>, warm_service)"
    by (simp add: isEmailAllowed_hit alice_def)
  ultimately show ?thesis by simp
qed

section \<open>Claims about the audit log query\<close>


lemma whereClause_page: "whereClause (page q l k) = whereClause q"
  by (rule ext) (simp add: whereClause_def conditions_def page_def)



lemma sorted_matching_rows: "sorted (map (\<lambda>row. - ts row) (matching_rows db q))"
  by (simp add: matching_rows_def order_by_ts_desc_def)


lemma getAuditLogs_page:
  assumes "failing db COUNT_audit = None" and "failing db SELECT_audit = None"
    and "0 < l" and "0 \<le> k"
  shows "getAuditLogs db (page q l k) =
           \<lparr>logs = take (nat l) (drop (nat k) (matching_rows db q)),
            total = length (filter (whereClause q) (auth_audit_log db)), error = None\<rparr>"
  using assms
  by (simp add: getAuditLogs_def query_count_audit_def query_select_audit_def Let_def
      whereClause_page matching_rows_def) (simp add: page_def)



lemma sorted_page:
  assumes "failing db COUNT_audit = None" and "failing db SELECT_audit = None"
    and "0 < l" and "0 \<le> k"
  shows "sorted (map (\<lambda>r. - ts r) (logs (getAuditLogs db (page q l k))))"
proof -
  have "sorted (take (nat l) (drop (nat k) (map (\<lambda>r. - ts r) (matching_rows db q))))"
    by (intro sorted_wrt_take sorted_wrt_drop sorted_matching_rows)
  then show ?thesis
    using getAuditLogs_page[OF assms, of q] by (simp add: take_map drop_map)
qed




section \<open>Claims about role validation and the admin routes\<close>

lemma sanitizeRole_isValid:
  "isValid (sanitizeRole input) = (toLowerCase (trim input) \<in> {''admin'', ''viewer'', ''editor''})"
  by (simp add: sanitizeRole_def Let_def)

text \<open>
  Claim C6 against the code. \<open>sanitizeRole\<close> accepts exactly the inputs whose trimmed,
  lowercased value is \<open>admin\<close>, \<open>viewer\<close> or \<open>editor\<close>: it rejects \<open>qa\<close>, which the
  table's check constraint admits, and accepts \<open>editor\<close>, which the constraint refuses.
\<close>

theorem sanitizeRole_accepts_editor_rejects_qa:
  "isValid (sanitizeRole input) = (toLowerCase (trim input) \<in> {''admin'', ''viewer'', ''editor''})
   \<and> \<not> isValid (sanitizeRole ''qa'')
   \<and> errors (sanitizeRole ''qa'') = [''Role must be one of: admin, viewer, editor'']
   \<and> isValid (sanitizeRole '' Editor '')
   \<and> role_check ''qa'' \<and> \<not> role_check ''editor''"
proof -
  have "\<not> isValid (sanitizeRole ''qa'')" by code_simp
  moreover have "errors (sanitizeRole ''qa'') = [''Role must be one of: admin, viewer, editor'']"
    by code_simp
  moreover have "isValid (sanitizeRole '' Editor '')" by code_simp
  moreover have "role_check ''qa''" "\<not> role_check ''editor''" by code_simp+
  ultimately show ?thesis using sanitizeRole_isValid by blast
qed

lemma users_POST_handler_store_failure:
  assumes "json (request context) = Some b" and "UserBody.email b = Some e" and "e \<noteq> []"
    and "failing (snd w) UPSERT_allowed = Some msg"
  shows "fst (users_POST_handler now context w)
           = Inr \<lparr>status = 400, body = ErrorBody (Some msg)\<rparr>"
  using assms
  by (simp add: users_POST_handler_def addUser_def query_upsert_allowed_def truthy_def
      NextResponse_json_def)

lemma toggle_PATCH_handler_store_failure:
  assumes "failing (snd w) TOGGLE_allowed = Some msg"
  shows "fst (toggle_PATCH_handler (Some e) now context w)
           = Inr \<lparr>status = 400, body = ErrorBody (Some msg)\<rparr>"
  using assms
  by (simp add: toggle_PATCH_handler_def toggleUserStatus_def query_toggle_allowed_def
      NextResponse_json_def)

text \<open>
  Claim C5 against the code. An administrator's \<open>POST /api/admin/users\<close> and
  \<open>PATCH /api/admin/users/[email]/toggle\<close> against a store that answers the lookup but
  throws on the write are answered with status 400 and the driver's message, the same status
  as the toggle of an email that has no row.
\<close>

theorem admin_mutation_store_failure_answers_400:
  "failing write_failing_db SELECT_allowed = None
   \<and> failing write_failing_db UPSERT_allowed = Some ''connection terminated unexpectedly''
   \<and> fst (users_POST root_clerk 5 add_bob_request (new_AllowListService, write_failing_db))
     = \<lparr>status = 400, body = ErrorBody (Some ''connection terminated unexpectedly'')\<rparr>
   \<and> fst (toggle_PATCH (Some ''alice@example.com'') root_clerk 5 add_bob_request
            (new_AllowListService, write_failing_db))
     = \<lparr>status = 400, body = ErrorBody (Some ''connection terminated unexpectedly'')\<rparr>
   \<and> fst (toggle_PATCH (Some ''bob@example.com'') root_clerk 5 add_bob_request
            (new_AllowListService, example_db))
     = \<lparr>status = 400, body = ErrorBody (Some ''User not found'')\<rparr>"
  by code_simp

section \<open>Claims about the guard\<close>
















lemma createAuthGuard_no_session:
  assumes "auth_error clerk = None" and "\<not> truthy (Clerk.userId clerk)"
  shows "createAuthGuard h clerk now req w
           = (NextResponse_json (ErrorBody (Some ''Unauthorized'')) 401, w)"
  using assms by (simp add: createAuthGuard_def guard_try_def)






text \<open>
  Two more paths of the source, evaluated: the guard answers a request without a session
  with 401 and leaves the audit log as it is, and the \<open>requireAdmin\<close> local to the admin
  routes denies without an audit row.
\<close>

lemma no_session_writes_nothing:
  "createAuthGuard ok_handler no_session_clerk 5 profile_request (new_AllowListService, example_db)
     = (\<lparr>status = 401, body = ErrorBody (Some ''Unauthorized'')\<rparr>,
        (new_AllowListService, example_db))"
  by (simp add: createAuthGuard_no_session no_session_clerk_def truthy_def NextResponse_json_def)

lemma route_requireAdmin_denies_without_audit_entry:
  "fst (route_requireAdmin ok_handler alice_clerk 5 profile_request
          (new_AllowListService, example_db))
     = \<lparr>status = 403, body = ErrorBody (Some ''Admin role required'')\<rparr>
   \<and> auth_audit_log (snd (snd (route_requireAdmin ok_handler alice_clerk 5 profile_request
          (new_AllowListService, example_db)))) = []"
  by code_simp

end
